theory Spec2Isabelle
  imports Complex_Main "HOL-Library.Sublist"
begin

section \<open>Python values, errors and strings\<close>

text \<open>
  The decoded inputs of a trace are a Python \<^verbatim>\<open>Dict[str, Any]\<close>. The values the
  sources read from it are addresses (strings) and amounts (integers); \<open>PNone\<close> is
  Python's \<^verbatim>\<open>None\<close>.
\<close>

datatype pyval = PNone | PStr string | PInt int

text \<open>
  Every exception the modelled code can raise is a value. \<open>ChainQueryError\<close> stands
  for any failure of a call into the chain provider (a revert, a network error, an
  address the library refuses); the Python built-in errors keep their names.
\<close>

datatype error = KeyError | AttributeError | TypeError | ChainQueryError

definition bindE :: "error + 'a \<Rightarrow> ('a \<Rightarrow> error + 'b) \<Rightarrow> error + 'b" where
  "bindE m f = (case m of Inl e \<Rightarrow> Inl e | Inr x \<Rightarrow> f x)"

text \<open>
  \<^verbatim>\<open>str.lower()\<close> on the ASCII range: the letters \<^verbatim>\<open>A\<close> to \<^verbatim>\<open>Z\<close> (codes 65 to 90)
  move to \<^verbatim>\<open>a\<close> to \<^verbatim>\<open>z\<close>, every other byte stays. Addresses are ASCII.
\<close>

definition lower_char :: "char \<Rightarrow> char" where
  "lower_char c =
     (if 65 \<le> (of_char c :: nat) \<and> (of_char c :: nat) \<le> 90
      then char_of ((of_char c :: nat) + 32) else c)"

definition lower :: "string \<Rightarrow> string" where
  "lower s = map lower_char s"

text \<open>\<^verbatim>\<open>v.lower()\<close> for a value of type \<^verbatim>\<open>Any\<close>: only a string has the method.\<close>

fun py_lower :: "pyval \<Rightarrow> error + string" where
  "py_lower (PStr s) = Inr (lower s)"
| "py_lower _ = Inl AttributeError"

text \<open>\<^verbatim>\<open>d[k]\<close> on a dictionary with string keys: a missing key raises \<^verbatim>\<open>KeyError\<close>.\<close>

definition dict_get :: "(string \<rightharpoonup> 'v) \<Rightarrow> string \<Rightarrow> error + 'v" where
  "dict_get d k = (case d k of None \<Rightarrow> Inl KeyError | Some v \<Rightarrow> Inr v)"

text \<open>
  \<^verbatim>\<open>d[v]\<close> where the key is a value of type \<^verbatim>\<open>Any\<close>: a key that is not a string is
  not in a dictionary whose keys are strings.
\<close>

fun dict_get_val :: "(string \<rightharpoonup> 'v) \<Rightarrow> pyval \<Rightarrow> error + 'v" where
  "dict_get_val d (PStr k) = dict_get d k"
| "dict_get_val d _ = Inl KeyError"

text \<open>\<^verbatim>\<open>d[k]\<close> where the key is an \<^verbatim>\<open>Optional[str]\<close>.\<close>

fun dict_get_opt :: "(string \<rightharpoonup> 'v) \<Rightarrow> string option \<Rightarrow> error + 'v" where
  "dict_get_opt d (Some k) = dict_get d k"
| "dict_get_opt d None = Inl KeyError"

text \<open>
  \<^verbatim>\<open>x.inputs[k]\<close> where \<^verbatim>\<open>inputs\<close> is an \<^verbatim>\<open>Optional[Dict[str, Any]]\<close>: subscripting
  \<^verbatim>\<open>None\<close> raises \<^verbatim>\<open>TypeError\<close>.
\<close>

fun inputs_get :: "(string \<rightharpoonup> pyval) option \<Rightarrow> string \<Rightarrow> error + pyval" where
  "inputs_get None k = Inl TypeError"
| "inputs_get (Some d) k = dict_get d k"

text \<open>
  \<^verbatim>\<open>v * rate\<close> for a value \<^verbatim>\<open>v\<close> of type \<^verbatim>\<open>Any\<close> and a float \<^verbatim>\<open>rate\<close>: an integer is
  multiplied, a string or \<^verbatim>\<open>None\<close> raises \<^verbatim>\<open>TypeError\<close>. Python's floats are
  idealised as the real numbers throughout: rounding, overflow and underflow of the
  64-bit format are not modelled.
\<close>

fun py_mul_float :: "pyval \<Rightarrow> real \<Rightarrow> error + real" where
  "py_mul_float (PInt n) r = Inr (real_of_int n * r)"
| "py_mul_float _ r = Inl TypeError"

fun py_of_opt_int :: "int option \<Rightarrow> pyval" where
  "py_of_opt_int None = PNone"
| "py_of_opt_int (Some n) = PInt n"

section \<open>The data model\<close>

text \<open>
  The schemas (\<^verbatim>\<open>mev_inspect.schemas\<close>) are declarations outside the sources at hand;
  the records below hold the fields the sources read and write, typed as the
  specification's data model describes them, and building one is building the record:
  what the schema's base class would validate or convert is not modelled. Of each
  enumeration only the members the sources and the specification name are declared.
\<close>

datatype Classification = unknown | swap | transfer | liquidate | seize

datatype Protocol = compound_v2 | other_protocol string

record ClassifiedTrace =
  transaction_hash :: string
  trace_address :: "int list"
  block_number :: int
  classification :: Classification
  protocol :: "Protocol option"
  abi_name :: "string option"
  function_name :: "string option"
  from_address :: "string option"
  to_address :: "string option"
  inputs :: "(string \<rightharpoonup> pyval) option"
  "value" :: "int option"

text \<open>
  The output record of \<^verbatim>\<open>compound_liquidations.py\<close>. The four provenance fields carry
  the prefix \<open>l_\<close>, since a trace has fields of the same names.
\<close>

record Liquidation =
  liquidated_user :: pyval
  collateral_token_address :: string
  debt_token_address :: string
  liquidator_user :: pyval
  debt_purchase_amount :: pyval
  l_protocol :: Protocol
  received_amount :: real
  l_transaction_hash :: string
  l_trace_address :: "int list"
  l_block_number :: int

text \<open>
  The chain provider. \<^verbatim>\<open>w3\<close> is a parameter of every function of
  \<^verbatim>\<open>compound_liquidations.py\<close>; each field is one view-function call the sources make
  through it (building the contract object and calling it), and
  \<open>toChecksumAddress\<close> is the library's address normalisation, which raises on a
  value that is not an address.
\<close>

record Web3 =
  getAllMarkets :: "error + string list"
  underlying :: "string \<Rightarrow> error + string"
  exchangeRateCurrent :: "string \<Rightarrow> int \<Rightarrow> error + int"
  decimals :: "string \<Rightarrow> error + int"
  toChecksumAddress :: "pyval \<Rightarrow> error + string"

section \<open>The trace walker\<close>

text \<open>
  Modelled from the spec: \<^verbatim>\<open>get_child_traces\<close> of \<^verbatim>\<open>mev_inspect.traces\<close> is not
  among the sources. It returns every trace whose transaction hash matches and whose
  trace address is a strict descendant (any depth) of the given address, in the
  original relative order.
\<close>

definition get_child_traces ::
  "string \<Rightarrow> int list \<Rightarrow> ClassifiedTrace list \<Rightarrow> ClassifiedTrace list" where
  "get_child_traces tx_hash parent_trace_address traces =
     filter (\<lambda>t. transaction_hash t = tx_hash
                 \<and> strict_prefix parent_trace_address (trace_address t)) traces"

text \<open>
  \<^verbatim>\<open>_get_seize_call\<close> (a name cannot begin with an underscore here): the first
  child classified \<^verbatim>\<open>seize\<close>, or \<^verbatim>\<open>None\<close>.
\<close>

fun get_seize_call :: "ClassifiedTrace list \<Rightarrow> ClassifiedTrace option" where
  "get_seize_call [] = None"
| "get_seize_call (child_trace # child_traces) =
     (if classification child_trace = seize then Some child_trace
      else get_seize_call child_traces)"

section \<open>The market registry\<close>

definition V2_C_ETHER :: string where
  "V2_C_ETHER = ''0x4Ddc2D193948926D02f9B1fE9e1daa0718270ED5''"

text \<open>
  The loop of \<^verbatim>\<open>get_all_comp_markets\<close> over the enumerated markets; the third argument
  is \<^verbatim>\<open>c_token_mapping\<close> as built so far. A failing \<^verbatim>\<open>underlying()\<close> call leaves the
  function with its error.
\<close>

fun get_all_comp_markets_loop ::
  "Web3 \<Rightarrow> string list \<Rightarrow> (string \<rightharpoonup> string) \<Rightarrow> error + (string \<rightharpoonup> string)" where
  "get_all_comp_markets_loop w3 [] c_token_mapping = Inr c_token_mapping"
| "get_all_comp_markets_loop w3 (c_token # markets) c_token_mapping =
     (if c_token \<noteq> V2_C_ETHER then
        (case underlying w3 c_token of
           Inl e \<Rightarrow> Inl e
         | Inr underlying_token \<Rightarrow>
             get_all_comp_markets_loop w3 markets
               (c_token_mapping(lower c_token \<mapsto> lower underlying_token)))
      else get_all_comp_markets_loop w3 markets c_token_mapping)"

definition get_all_comp_markets :: "Web3 \<Rightarrow> error + (string \<rightharpoonup> string)" where
  "get_all_comp_markets w3 =
     bindE (getAllMarkets w3) (\<lambda>markets. get_all_comp_markets_loop w3 markets Map.empty)"

section \<open>The rate converter\<close>

definition get_erc20_token_decimals :: "pyval \<Rightarrow> Web3 \<Rightarrow> error + int" where
  "get_erc20_token_decimals token_address w3 =
     bindE (toChecksumAddress w3 token_address) (\<lambda>a. decimals w3 a)"

text \<open>
  The order of the calls is the source's: the checksum of the market address, the raw
  rate at the block, the registry lookup on the lower-cased address, the decimals of
  the underlying token, the decimals of the market token. \<^verbatim>\<open>10 ** n\<close> is an integer
  for \<open>n \<ge> 0\<close> and a float for \<open>n < 0\<close>; \<^verbatim>\<open>/\<close> is true division.
\<close>

definition get_underlying_ctoken_exchange_rate ::
  "pyval \<Rightarrow> int \<Rightarrow> Web3 \<Rightarrow> (string \<rightharpoonup> string) \<Rightarrow> error + real" where
  "get_underlying_ctoken_exchange_rate c_token_address block_no w3 comp_markets =
     bindE (toChecksumAddress w3 c_token_address) (\<lambda>a.
     bindE (exchangeRateCurrent w3 a block_no) (\<lambda>raw_exchange_rate.
     bindE (py_lower c_token_address) (\<lambda>k.
     bindE (dict_get comp_markets k) (\<lambda>underlying_token_address.
     bindE (get_erc20_token_decimals (PStr underlying_token_address) w3)
       (\<lambda>decimals_in_underlying.
     bindE (get_erc20_token_decimals c_token_address w3) (\<lambda>decimals_in_ctoken.
     Inr (real_of_int raw_exchange_rate
            / (10 powi (18 + decimals_in_underlying - decimals_in_ctoken)))))))))"

section \<open>The liquidation reconstructor\<close>

text \<open>
  \<^verbatim>\<open>seize_trace.inputs[k]\<close> where \<^verbatim>\<open>seize_trace\<close> is the \<^verbatim>\<open>Optional[ClassifiedTrace]\<close>
  that \<^verbatim>\<open>_get_seize_call\<close> returned: reading an attribute of \<^verbatim>\<open>None\<close> raises
  \<^verbatim>\<open>AttributeError\<close>.
\<close>

fun seize_inputs_get :: "ClassifiedTrace option \<Rightarrow> string \<Rightarrow> error + pyval" where
  "seize_inputs_get None k = Inl AttributeError"
| "seize_inputs_get (Some seize_trace) k = inputs_get (inputs seize_trace) k"

text \<open>
  The body of the loop of \<^verbatim>\<open>get_compound_liquidations\<close> for one trace that passed the
  test on classification and protocol; the last argument is the list \<^verbatim>\<open>liquidations\<close>
  so far, the result is the list after the body. The keyword arguments of the
  \<^verbatim>\<open>Liquidation\<close> constructor are evaluated in the order they are written, so the
  first failing one decides the error. \<open>WETH_ADDRESS\<close> is a constant of
  \<^verbatim>\<open>mev_inspect.classifiers.specs\<close>, not among the sources: it is a parameter.
\<close>

definition get_compound_liquidations_body ::
  "string \<Rightarrow> ClassifiedTrace list \<Rightarrow> (string \<rightharpoonup> string) \<Rightarrow> Web3 \<Rightarrow> ClassifiedTrace
     \<Rightarrow> Liquidation list \<Rightarrow> error + Liquidation list" where
  "get_compound_liquidations_body WETH_ADDRESS traces comp_markets w3 trace liquidations =
     (let child_traces =
            get_child_traces (transaction_hash trace) (trace_address trace) traces;
          seize_trace = get_seize_call child_traces
      in
      bindE (inputs_get (inputs trace) ''cTokenCollateral'') (\<lambda>c_token_collateral.
      bindE (get_underlying_ctoken_exchange_rate c_token_collateral (block_number trace)
               w3 comp_markets) (\<lambda>underlying_exchange_rate.
      if abi_name trace = Some ''CEther'' then
        bindE (inputs_get (inputs trace) ''borrower'') (\<lambda>borrower.
        bindE (dict_get_val comp_markets c_token_collateral) (\<lambda>debt_token.
        bindE (seize_inputs_get seize_trace ''liquidator'') (\<lambda>liquidator.
        bindE (seize_inputs_get seize_trace ''seizeTokens'') (\<lambda>seize_tokens.
        bindE (py_mul_float seize_tokens underlying_exchange_rate) (\<lambda>received.
        Inr (liquidations @
          [\<lparr> liquidated_user = borrower,
             collateral_token_address = WETH_ADDRESS,
             debt_token_address = debt_token,
             liquidator_user = liquidator,
             debt_purchase_amount = py_of_opt_int (value trace),
             l_protocol = compound_v2,
             received_amount = received,
             l_transaction_hash = transaction_hash trace,
             l_trace_address = trace_address trace,
             l_block_number = block_number trace \<rparr>]))))))
      else if abi_name trace = Some ''CToken'' then
        bindE (inputs_get (inputs trace) ''borrower'') (\<lambda>borrower.
        bindE (dict_get_opt comp_markets (to_address trace)) (\<lambda>collateral_token.
        bindE (dict_get_val comp_markets c_token_collateral) (\<lambda>debt_token.
        bindE (seize_inputs_get seize_trace ''liquidator'') (\<lambda>liquidator.
        bindE (inputs_get (inputs trace) ''repayAmount'') (\<lambda>repay_amount.
        bindE (seize_inputs_get seize_trace ''seizeTokens'') (\<lambda>seize_tokens.
        bindE (py_mul_float seize_tokens underlying_exchange_rate) (\<lambda>received.
        Inr (liquidations @
          [\<lparr> liquidated_user = borrower,
             collateral_token_address = collateral_token,
             debt_token_address = debt_token,
             liquidator_user = liquidator,
             debt_purchase_amount = repay_amount,
             l_protocol = compound_v2,
             received_amount = received,
             l_transaction_hash = transaction_hash trace,
             l_trace_address = trace_address trace,
             l_block_number = block_number trace \<rparr>]))))))))
      else Inr liquidations)))"

text \<open>
  The loop over \<^verbatim>\<open>traces\<close>: the fifth argument is the part of the list still to visit,
  the second the whole list (the children of a trace are looked for in all of it). An
  exception raised in the body leaves the function: nothing catches it.
\<close>

fun get_compound_liquidations_loop ::
  "string \<Rightarrow> ClassifiedTrace list \<Rightarrow> (string \<rightharpoonup> string) \<Rightarrow> Web3 \<Rightarrow> ClassifiedTrace list
     \<Rightarrow> Liquidation list \<Rightarrow> error + Liquidation list" where
  "get_compound_liquidations_loop WETH_ADDRESS traces comp_markets w3 [] liquidations =
     Inr liquidations"
| "get_compound_liquidations_loop WETH_ADDRESS traces comp_markets w3 (trace # rest)
       liquidations =
     (if classification trace = liquidate \<and> protocol trace = Some compound_v2 then
        (case get_compound_liquidations_body WETH_ADDRESS traces comp_markets w3 trace
                liquidations of
           Inl e \<Rightarrow> Inl e
         | Inr liquidations' \<Rightarrow>
             get_compound_liquidations_loop WETH_ADDRESS traces comp_markets w3 rest
               liquidations')
      else get_compound_liquidations_loop WETH_ADDRESS traces comp_markets w3 rest
             liquidations)"

definition get_compound_liquidations ::
  "string \<Rightarrow> ClassifiedTrace list \<Rightarrow> (string \<rightharpoonup> string) \<Rightarrow> Web3
     \<Rightarrow> error + Liquidation list" where
  "get_compound_liquidations WETH_ADDRESS traces comp_markets w3 =
     get_compound_liquidations_loop WETH_ADDRESS traces comp_markets w3 traces []"

section \<open>The strategy inspector for cETH liquidations\<close>

datatype LiquidationCollateralSource = other | searcher_contract | searcher_eoa

datatype LiquidationStatus = seized

datatype LiquidationType = compound_v2_ceth_liquidation

text \<open>
  The transaction and the record that \<^verbatim>\<open>compound_v2_ceth.py\<close> builds (an earlier
  schema, also named \<^verbatim>\<open>Liquidation\<close>), with the fields the source reads and writes.
\<close>

record Transaction =
  t_tx_hash :: string
  t_from_address :: string
  t_to_address :: string

record CethLiquidation =
  tx_hash :: string
  borrower :: pyval
  collateral_provided :: string
  collateral_provided_amount :: pyval
  asset_seized :: string
  asset_seized_amount :: int
  profit_in_eth :: int
  tokenflow_estimate_in_eth :: int
  tokenflow_diff :: int
  collateral_source :: LiquidationCollateralSource
  status :: LiquidationStatus
  liquidation_type :: LiquidationType

text \<open>
  The loop of \<^verbatim>\<open>find_collateral_source\<close>; the last argument is the variable
  \<^verbatim>\<open>source\<close>. The loop has no \<^verbatim>\<open>break\<close>: every trace is visited, and a later match
  overwrites an earlier one.
\<close>

fun find_collateral_source_loop ::
  "ClassifiedTrace list \<Rightarrow> Transaction \<Rightarrow> string option \<Rightarrow> LiquidationCollateralSource
     \<Rightarrow> LiquidationCollateralSource" where
  "find_collateral_source_loop [] tx liquidation_contract source = source"
| "find_collateral_source_loop (classified_trace # rest) tx liquidation_contract source =
     (if to_address classified_trace = liquidation_contract
         \<and> function_name classified_trace = Some ''liquidateBorrow''
      then
        (if Some (lower (t_to_address tx)) = from_address classified_trace then
           find_collateral_source_loop rest tx liquidation_contract searcher_contract
         else if Some (lower (t_from_address tx)) = from_address classified_trace then
           find_collateral_source_loop rest tx liquidation_contract searcher_eoa
         else find_collateral_source_loop rest tx liquidation_contract source)
      else find_collateral_source_loop rest tx liquidation_contract source)"

definition find_collateral_source ::
  "ClassifiedTrace list \<Rightarrow> Transaction \<Rightarrow> string option \<Rightarrow> LiquidationCollateralSource" where
  "find_collateral_source classified_traces tx liquidation_contract =
     find_collateral_source_loop classified_traces tx liquidation_contract other"

text \<open>
  The loop of \<^verbatim>\<open>inspect_compound_v2_ceth\<close>: the first trace that calls
  \<^verbatim>\<open>liquidateBorrow\<close> with decoded inputs decides the result. \<open>default_liquidation\<close>
  is the value of \<^verbatim>\<open>Liquidation()\<close>, which depends on the defaults of a schema that is
  not among the sources: it is a parameter. The module's connection \<^verbatim>\<open>w3\<close> is a
  global there and a parameter here, and its \<^verbatim>\<open>get_all_comp_markets\<close> is, line for
  line, the one of \<^verbatim>\<open>compound_liquidations.py\<close>.
\<close>

fun inspect_compound_v2_ceth_loop ::
  "CethLiquidation \<Rightarrow> Web3 \<Rightarrow> Transaction \<Rightarrow> ClassifiedTrace list \<Rightarrow> ClassifiedTrace list
     \<Rightarrow> error + CethLiquidation" where
  "inspect_compound_v2_ceth_loop default_liquidation w3 tx classified_traces [] =
     Inr default_liquidation"
| "inspect_compound_v2_ceth_loop default_liquidation w3 tx classified_traces
       (classified_trace # rest) =
     (if function_name classified_trace = Some ''liquidateBorrow''
         \<and> inputs classified_trace \<noteq> None
      then
        (let source =
               find_collateral_source classified_traces tx (to_address classified_trace)
         in
         bindE (inputs_get (inputs classified_trace) ''borrower'') (\<lambda>borrower_value.
         bindE (inputs_get (inputs classified_trace) ''cTokenCollateral'')
           (\<lambda>c_token_collateral.
         bindE (get_all_comp_markets w3) (\<lambda>markets.
         bindE (dict_get_val markets c_token_collateral) (\<lambda>seized_asset.
         Inr \<lparr> tx_hash = t_tx_hash tx,
               borrower = borrower_value,
               collateral_provided = ''ether'',
               collateral_provided_amount = py_of_opt_int (value classified_trace),
               asset_seized = seized_asset,
               asset_seized_amount = 0,
               profit_in_eth = 0,
               tokenflow_estimate_in_eth = 0,
               tokenflow_diff = 0,
               collateral_source = source,
               status = seized,
               liquidation_type = compound_v2_ceth_liquidation \<rparr>)))))
      else inspect_compound_v2_ceth_loop default_liquidation w3 tx classified_traces rest)"

definition inspect_compound_v2_ceth ::
  "CethLiquidation \<Rightarrow> Web3 \<Rightarrow> Transaction \<Rightarrow> ClassifiedTrace list
     \<Rightarrow> error + CethLiquidation" where
  "inspect_compound_v2_ceth default_liquidation w3 tx classified_traces =
     inspect_compound_v2_ceth_loop default_liquidation w3 tx classified_traces
       classified_traces"

section \<open>Example inputs\<close>

text \<open>
  A small chain and the traces of the specification's end-to-end scenario: two markets
  besides the native-asset market, with the decimals and raw rates that resolve the
  rate of \<^verbatim>\<open>0xc_dai\<close> to 0.02. The concrete theorems below are evaluated on them.
\<close>

definition checksum_example :: "pyval \<Rightarrow> error + string" where
  "checksum_example v =
     (case v of
        PStr s \<Rightarrow>
          (if lower s = ''0xc_dai'' then Inr ''0xC_DAI''
           else if lower s = ''0xc_usdc'' then Inr ''0xC_USDC''
           else if lower s = ''0xdai'' then Inr ''0xDAI''
           else if lower s = ''0xusdc'' then Inr ''0xUSDC''
           else Inl ChainQueryError)
      | _ \<Rightarrow> Inl ChainQueryError)"

definition w3_example :: Web3 where
  "w3_example =
     \<lparr> getAllMarkets = Inr [''0xC_DAI'', V2_C_ETHER, ''0xC_USDC''],
       underlying = (\<lambda>a. if a = ''0xC_DAI'' then Inr ''0xDAI''
                         else if a = ''0xC_USDC'' then Inr ''0xUSDC''
                         else Inl ChainQueryError),
       exchangeRateCurrent = (\<lambda>a b. if a = ''0xC_DAI'' then Inr (2 * 10 ^ 26)
                         else if a = ''0xC_USDC'' then Inr (2 * 10 ^ 14)
                         else Inl ChainQueryError),
       decimals = (\<lambda>a. if a = ''0xC_DAI'' \<or> a = ''0xC_USDC'' then Inr 8
                       else if a = ''0xDAI'' then Inr 18
                       else if a = ''0xUSDC'' then Inr 6
                       else Inl ChainQueryError),
       toChecksumAddress = checksum_example \<rparr>"

definition markets_example :: "string \<rightharpoonup> string" where
  "markets_example = [''0xc_dai'' \<mapsto> ''0xdai'', ''0xc_usdc'' \<mapsto> ''0xusdc'']"

definition liq_token_example :: ClassifiedTrace where
  "liq_token_example =
     \<lparr> transaction_hash = ''0xtx1'', trace_address = [0], block_number = 7,
       classification = liquidate, protocol = Some compound_v2,
       abi_name = Some ''CToken'', function_name = Some ''liquidateBorrow'',
       from_address = Some ''0xl'', to_address = Some ''0xc_usdc'',
       inputs = Some [''borrower'' \<mapsto> PStr ''0xB'', ''cTokenCollateral'' \<mapsto> PStr ''0xc_dai'',
                      ''repayAmount'' \<mapsto> PInt 1000],
       value = Some 0 \<rparr>"

definition seize_token_example :: ClassifiedTrace where
  "seize_token_example =
     \<lparr> transaction_hash = ''0xtx1'', trace_address = [0, 2], block_number = 7,
       classification = seize, protocol = Some compound_v2,
       abi_name = Some ''CToken'', function_name = Some ''seize'',
       from_address = Some ''0xc_usdc'', to_address = Some ''0xc_dai'',
       inputs = Some [''liquidator'' \<mapsto> PStr ''0xL'', ''seizeTokens'' \<mapsto> PInt 500],
       value = Some 0 \<rparr>"

definition liquidation_token_example :: Liquidation where
  "liquidation_token_example =
     \<lparr> liquidated_user = PStr ''0xB'',
       collateral_token_address = ''0xusdc'',
       debt_token_address = ''0xdai'',
       liquidator_user = PStr ''0xL'',
       debt_purchase_amount = PInt 1000,
       l_protocol = compound_v2,
       received_amount = 10,
       l_transaction_hash = ''0xtx1'',
       l_trace_address = [0],
       l_block_number = 7 \<rparr>"

definition weth_example :: string where
  "weth_example = ''0xweth''"

definition liq_native_example :: ClassifiedTrace where
  "liq_native_example =
     \<lparr> transaction_hash = ''0xtx2'', trace_address = [], block_number = 9,
       classification = liquidate, protocol = Some compound_v2,
       abi_name = Some ''CEther'', function_name = Some ''liquidateBorrow'',
       from_address = Some ''0xl'', to_address = Some V2_C_ETHER,
       inputs = Some [''borrower'' \<mapsto> PStr ''0xB'', ''cTokenCollateral'' \<mapsto> PStr ''0xc_dai''],
       value = Some 3000 \<rparr>"

definition seize_native_example :: ClassifiedTrace where
  "seize_native_example =
     \<lparr> transaction_hash = ''0xtx2'', trace_address = [1], block_number = 9,
       classification = seize, protocol = Some compound_v2,
       abi_name = Some ''CToken'', function_name = Some ''seize'',
       from_address = Some V2_C_ETHER, to_address = Some ''0xc_dai'',
       inputs = Some [''liquidator'' \<mapsto> PStr ''0xL'', ''seizeTokens'' \<mapsto> PInt 500],
       value = Some 0 \<rparr>"

definition liquidation_native_example :: Liquidation where
  "liquidation_native_example =
     \<lparr> liquidated_user = PStr ''0xB'',
       collateral_token_address = ''0xweth'',
       debt_token_address = ''0xdai'',
       liquidator_user = PStr ''0xL'',
       debt_purchase_amount = PInt 3000,
       l_protocol = compound_v2,
       received_amount = 10,
       l_transaction_hash = ''0xtx2'',
       l_trace_address = [],
       l_block_number = 9 \<rparr>"

definition malformed_example :: ClassifiedTrace where
  "malformed_example =
     \<lparr> transaction_hash = ''0xtx3'', trace_address = [], block_number = 7,
       classification = liquidate, protocol = Some compound_v2,
       abi_name = Some ''CToken'', function_name = Some ''liquidateBorrow'',
       from_address = Some ''0xl'', to_address = Some ''0xc_usdc'',
       inputs = Some Map.empty,
       value = Some 0 \<rparr>"

definition liq_upper_example :: ClassifiedTrace where
  "liq_upper_example =
     \<lparr> transaction_hash = ''0xtx4'', trace_address = [], block_number = 7,
       classification = liquidate, protocol = Some compound_v2,
       abi_name = Some ''CToken'', function_name = Some ''liquidateBorrow'',
       from_address = Some ''0xl'', to_address = Some ''0xc_usdc'',
       inputs = Some [''borrower'' \<mapsto> PStr ''0xB'', ''cTokenCollateral'' \<mapsto> PStr ''0xC_DAI'',
                      ''repayAmount'' \<mapsto> PInt 1000],
       value = Some 0 \<rparr>"

definition tx_example :: Transaction where
  "tx_example = \<lparr> t_tx_hash = ''0xtx5'', t_from_address = ''0xeoa'', t_to_address = ''0xbot'' \<rparr>"

definition call_by_contract_example :: ClassifiedTrace where
  "call_by_contract_example =
     \<lparr> transaction_hash = ''0xtx5'', trace_address = [0], block_number = 7,
       classification = liquidate, protocol = Some compound_v2,
       abi_name = Some ''CToken'', function_name = Some ''liquidateBorrow'',
       from_address = Some ''0xbot'', to_address = Some ''0xc_usdc'',
       inputs = None, value = Some 0 \<rparr>"

definition call_by_eoa_example :: ClassifiedTrace where
  "call_by_eoa_example =
     \<lparr> transaction_hash = ''0xtx5'', trace_address = [1], block_number = 7,
       classification = liquidate, protocol = Some compound_v2,
       abi_name = Some ''CToken'', function_name = Some ''liquidateBorrow'',
       from_address = Some ''0xeoa'', to_address = Some ''0xc_usdc'',
       inputs = None, value = Some 0 \<rparr>"

definition placeholder_example :: CethLiquidation where
  "placeholder_example =
     \<lparr> tx_hash = '''', borrower = PStr '''', collateral_provided = '''',
       collateral_provided_amount = PInt 0, asset_seized = '''', asset_seized_amount = 0,
       profit_in_eth = 0, tokenflow_estimate_in_eth = 0, tokenflow_diff = 0,
       collateral_source = other, status = seized,
       liquidation_type = compound_v2_ceth_liquidation \<rparr>"


section \<open>Proofs\<close>

lemmas lower_eval = lower_def lower_char_def char_of_def bit_Suc_0_iff

lemma bindE_simps [simp]:
  "bindE (Inl e) f = Inl e"
  "bindE (Inr x) f = f x"
  by (simp_all add: bindE_def)


lemma dict_get_eq_Inr: "dict_get d k = Inr v \<longleftrightarrow> d k = Some v"
  by (simp add: dict_get_def split: option.splits)

lemma dict_get_None: "d k = None \<Longrightarrow> dict_get d k = Inl KeyError"
  by (simp add: dict_get_def)

subsection \<open>The rate converter\<close>



subsection \<open>The market registry\<close>

lemma of_char_lower_char:
  "(of_char (lower_char c) :: nat) =
     (if 65 \<le> (of_char c :: nat) \<and> (of_char c :: nat) \<le> 90 then of_char c + 32 else of_char c)"
  by (simp add: lower_char_def)

lemma lower_char_not_upper: "lower_char c \<noteq> CHR ''D''"
proof
  assume "lower_char c = CHR ''D''"
  then have "(of_char (lower_char c) :: nat) = of_char CHR ''D''" by simp
  then show False by (simp add: of_char_lower_char split: if_splits)
qed

lemma lower_neq_V2_C_ETHER: "lower s \<noteq> V2_C_ETHER"
proof
  assume "lower s = V2_C_ETHER"
  then have "CHR ''D'' \<in> set (lower s)" by (simp add: V2_C_ETHER_def)
  then obtain x where "lower_char x = CHR ''D''" by (auto simp: lower_def)
  then show False by (simp add: lower_char_not_upper)
qed


text \<open>The registry is built whenever the chain answers every query.\<close>

lemma markets_loop_total:
  assumes "\<forall>c \<in> set markets. c \<noteq> V2_C_ETHER \<longrightarrow> (\<exists>u. underlying w c = Inr u)"
    shows "\<exists>registry. get_all_comp_markets_loop w markets acc = Inr registry"
  using assms by (induction markets arbitrary: acc) auto

lemma get_all_comp_markets_total:
  assumes "getAllMarkets w = Inr markets"
      and "\<forall>c \<in> set markets. c \<noteq> V2_C_ETHER \<longrightarrow> (\<exists>u. underlying w c = Inr u)"
    shows "\<exists>registry. get_all_comp_markets w = Inr registry"
  using assms markets_loop_total [of markets w Map.empty]
  by (simp add: get_all_comp_markets_def)


lemma registry_example: "get_all_comp_markets w3_example = Inr markets_example"
  by (simp add: get_all_comp_markets_def w3_example_def markets_example_def V2_C_ETHER_def
      lower_eval)


subsection \<open>The liquidation reconstructor\<close>

lemma rate_example:
  "get_underlying_ctoken_exchange_rate (PStr ''0xc_dai'') b w3_example markets_example
     = Inr (2 / 100)"
  by (simp add: get_underlying_ctoken_exchange_rate_def w3_example_def markets_example_def
      checksum_example_def get_erc20_token_decimals_def lower_eval power_int_def dict_get_def)

lemma children_token_example:
  "get_seize_call (get_child_traces ''0xtx1'' [0] [liq_token_example, seize_token_example])
     = Some seize_token_example"
  by (simp add: get_child_traces_def liq_token_example_def seize_token_example_def)

lemma body_token_example:
  "get_compound_liquidations_body W [liq_token_example, seize_token_example] markets_example
     w3_example liq_token_example ls = Inr (ls @ [liquidation_token_example])"
  using children_token_example
    rate_example [of 7]
  apply (simp add: get_compound_liquidations_body_def Let_def)
  apply (simp add: liq_token_example_def  dict_get_def)
  apply (simp add: seize_token_example_def markets_example_def liquidation_token_example_def dict_get_def)
  done



lemma loop_append:
  "get_compound_liquidations_loop W traces m w (pre @ post) ls =
     (case get_compound_liquidations_loop W traces m w pre ls of
        Inl e \<Rightarrow> Inl e
      | Inr ls' \<Rightarrow> get_compound_liquidations_loop W traces m w post ls')"
  by (induction pre arbitrary: ls) (simp_all split: sum.splits)




text \<open>
  The other direction: when every lookup of a variant succeeds, the body appends the
  record.
\<close>

lemma body_token_emits:
  assumes "abi_name t = Some ''CToken''"
      and "get_seize_call (get_child_traces (transaction_hash t) (trace_address t) traces)
             = Some s"
      and "inputs_get (inputs t) ''cTokenCollateral'' = Inr c"
      and "get_underlying_ctoken_exchange_rate c (block_number t) w m = Inr rate"
      and "inputs_get (inputs t) ''borrower'' = Inr b"
      and "dict_get_opt m (to_address t) = Inr coll"
      and "dict_get_val m c = Inr debt"
      and "inputs_get (inputs s) ''liquidator'' = Inr liq"
      and "inputs_get (inputs t) ''repayAmount'' = Inr amt"
      and "inputs_get (inputs s) ''seizeTokens'' = Inr (PInt n)"
    shows "get_compound_liquidations_body W traces m w t ls =
             Inr (ls @ [\<lparr> liquidated_user = b, collateral_token_address = coll,
                      debt_token_address = debt, liquidator_user = liq,
                      debt_purchase_amount = amt, l_protocol = compound_v2,
                      received_amount = real_of_int n * rate,
                      l_transaction_hash = transaction_hash t,
                      l_trace_address = trace_address t,
                      l_block_number = block_number t \<rparr>])"
  using assms by (simp add: get_compound_liquidations_body_def Let_def)

lemma body_native_emits:
  assumes "abi_name t = Some ''CEther''"
      and "get_seize_call (get_child_traces (transaction_hash t) (trace_address t) traces)
             = Some s"
      and "inputs_get (inputs t) ''cTokenCollateral'' = Inr c"
      and "get_underlying_ctoken_exchange_rate c (block_number t) w m = Inr rate"
      and "inputs_get (inputs t) ''borrower'' = Inr b"
      and "dict_get_val m c = Inr debt"
      and "inputs_get (inputs s) ''liquidator'' = Inr liq"
      and "inputs_get (inputs s) ''seizeTokens'' = Inr (PInt n)"
    shows "get_compound_liquidations_body W traces m w t ls =
             Inr (ls @ [\<lparr> liquidated_user = b, collateral_token_address = W,
                      debt_token_address = debt, liquidator_user = liq,
                      debt_purchase_amount = py_of_opt_int (value t),
                      l_protocol = compound_v2,
                      received_amount = real_of_int n * rate,
                      l_transaction_hash = transaction_hash t,
                      l_trace_address = trace_address t,
                      l_block_number = block_number t \<rparr>])"
  using assms by (simp add: get_compound_liquidations_body_def Let_def)


lemma result_token_example:
  "get_compound_liquidations W [liq_token_example, seize_token_example] markets_example
     w3_example = Inr [liquidation_token_example]"
proof -
  have "classification liq_token_example = liquidate"
    "protocol liq_token_example = Some compound_v2"
    "classification seize_token_example = seize"
    by (simp_all add: liq_token_example_def seize_token_example_def)
  with body_token_example [of W "[]"] show ?thesis
    by (simp add: get_compound_liquidations_def)
qed



lemma children_native_example:
  "get_seize_call (get_child_traces ''0xtx2'' [] (liq_native_example # seize_native_example # others))
     = Some seize_native_example"
  by (simp add: get_child_traces_def liq_native_example_def seize_native_example_def)

lemma body_native_example:
  "get_compound_liquidations_body weth_example
     (liq_native_example # seize_native_example # others) markets_example
     w3_example liq_native_example ls = Inr (ls @ [liquidation_native_example])"
  using children_native_example [of others] rate_example [of 9]
  apply (simp add: get_compound_liquidations_body_def Let_def)
  apply (simp add: liq_native_example_def dict_get_def)
  apply (simp add: seize_native_example_def markets_example_def liquidation_native_example_def
      dict_get_def weth_example_def)
  done

lemma result_native_example:
  "get_compound_liquidations weth_example [liq_native_example, seize_native_example]
     markets_example w3_example = Inr [liquidation_native_example]"
proof -
  have "classification liq_native_example = liquidate"
    "protocol liq_native_example = Some compound_v2"
    "classification seize_native_example = seize"
    by (simp_all add: liq_native_example_def seize_native_example_def)
  with body_native_example [of "[]" "[]"] show ?thesis
    by (simp add: get_compound_liquidations_def)
qed


text \<open>
  A trace handled by \<^verbatim>\<open>CEther\<close> or \<^verbatim>\<open>CToken\<close> without a \<^verbatim>\<open>seize\<close> descendant: once
  the lookups before it succeed, reading \<^verbatim>\<open>seize_trace.inputs\<close> raises.
\<close>

lemma no_seize_raises:
  assumes "get_seize_call (get_child_traces (transaction_hash t) (trace_address t) traces) = None"
      and "abi_name t = Some ''CEther'' \<or> abi_name t = Some ''CToken''"
      and "inputs_get (inputs t) ''cTokenCollateral'' = Inr c"
      and "get_underlying_ctoken_exchange_rate c (block_number t) w m = Inr rate"
      and "inputs_get (inputs t) ''borrower'' = Inr b"
      and "dict_get_val m c = Inr debt"
      and "abi_name t = Some ''CToken'' \<longrightarrow> dict_get_opt m (to_address t) = Inr coll"
    shows "get_compound_liquidations_body W traces m w t ls = Inl AttributeError"
  using assms by (auto simp: get_compound_liquidations_body_def Let_def)

text \<open>
  Claim C1. A liquidate-classified \<^verbatim>\<open>compound_v2\<close> trace with no seize-classified
  descendant is to be skipped without a record and without an error. On the native
  example trace alone (no seize call in the list) \<^verbatim>\<open>get_compound_liquidations\<close>
  raises \<^verbatim>\<open>AttributeError\<close> instead.
\<close>

theorem no_seize_native_example:
  "get_seize_call (get_child_traces (transaction_hash liq_native_example)
      (trace_address liq_native_example) [liq_native_example]) = None
   \<and> get_compound_liquidations weth_example [liq_native_example] markets_example w3_example
       = Inl AttributeError"
proof -
  have a: "get_seize_call (get_child_traces (transaction_hash liq_native_example)
      (trace_address liq_native_example) [liq_native_example]) = None"
    by (simp add: get_child_traces_def liq_native_example_def)
  have "get_compound_liquidations_body weth_example [liq_native_example] markets_example
          w3_example liq_native_example [] = Inl AttributeError"
  proof (rule no_seize_raises [OF a])
    show "abi_name liq_native_example = Some ''CEther'' \<or> abi_name liq_native_example = Some ''CToken''"
      by (simp add: liq_native_example_def)
    show "inputs_get (inputs liq_native_example) ''cTokenCollateral'' = Inr (PStr ''0xc_dai'')"
      by (simp add: liq_native_example_def dict_get_def)
    show "get_underlying_ctoken_exchange_rate (PStr ''0xc_dai'') (block_number liq_native_example)
            w3_example markets_example = Inr (2 / 100)"
      by (rule rate_example)
    show "inputs_get (inputs liq_native_example) ''borrower'' = Inr (PStr ''0xB'')"
      by (simp add: liq_native_example_def dict_get_def)
    show "dict_get_val markets_example (PStr ''0xc_dai'') = Inr ''0xdai''"
      by (simp add: markets_example_def dict_get_def)
    show "abi_name liq_native_example = Some ''CToken'' \<longrightarrow>
            dict_get_opt markets_example (to_address liq_native_example) = Inr ''''"
      by (simp add: liq_native_example_def)
  qed
  moreover have "classification liq_native_example = liquidate"
    "protocol liq_native_example = Some compound_v2"
    by (simp_all add: liq_native_example_def)
  ultimately have "get_compound_liquidations weth_example [liq_native_example] markets_example
       w3_example = Inl AttributeError"
    by (simp add: get_compound_liquidations_def)
  with a show ?thesis by simp
qed

text \<open>
  Claim C2, as the code has it. With the registry
  \<^verbatim>\<open>{"0xc_dai": "0xdai", "0xc_usdc": "0xusdc"}\<close>, the liquidate trace on
  \<^verbatim>\<open>0xc_usdc\<close> with inputs borrower \<^verbatim>\<open>0xB\<close>, cTokenCollateral \<^verbatim>\<open>0xc_dai\<close> and
  repayAmount 1000, its seize child with inputs liquidator \<^verbatim>\<open>0xL\<close> and seizeTokens
  500, and a rate of 0.02 resolved for \<^verbatim>\<open>0xc_dai\<close> at the trace's block,
  \<^verbatim>\<open>get_compound_liquidations\<close> returns exactly one record, with
  \<open>debt_token_address = 0xdai\<close>, \<open>collateral_token_address = 0xusdc\<close>,
  \<open>debt_purchase_amount = 1000\<close> and \<open>received_amount = 10\<close>.
\<close>

theorem scenario_result:
  assumes "get_underlying_ctoken_exchange_rate (PStr ''0xc_dai'') 7 w markets_example
             = Inr (2 / 100)"
    shows "get_compound_liquidations W [liq_token_example, seize_token_example]
             markets_example w = Inr [liquidation_token_example]"
proof -
  have "get_compound_liquidations_body W [liq_token_example, seize_token_example]
          markets_example w liq_token_example [] = Inr [liquidation_token_example]"
    using children_token_example assms
    apply (simp add: get_compound_liquidations_body_def Let_def)
    apply (simp add: liq_token_example_def dict_get_def)
    apply (simp add: seize_token_example_def markets_example_def liquidation_token_example_def
        dict_get_def)
    done
  moreover have "classification liq_token_example = liquidate"
    "protocol liq_token_example = Some compound_v2"
    "classification seize_token_example = seize"
    by (simp_all add: liq_token_example_def seize_token_example_def)
  ultimately show ?thesis
    by (simp add: get_compound_liquidations_def)
qed

text \<open>The example chain resolves the rate of \<^verbatim>\<open>0xc_dai\<close> to 0.02.\<close>

theorem scenario_result_witness:
  "get_underlying_ctoken_exchange_rate (PStr ''0xc_dai'') 7 w3_example markets_example
     = Inr (2 / 100)
   \<and> get_compound_liquidations weth_example [liq_token_example, seize_token_example]
       markets_example w3_example = Inr [liquidation_token_example]
   \<and> debt_token_address liquidation_token_example = ''0xdai''
   \<and> collateral_token_address liquidation_token_example = ''0xusdc''
   \<and> debt_purchase_amount liquidation_token_example = PInt 1000
   \<and> received_amount liquidation_token_example = 10"
proof -
  have r: "get_underlying_ctoken_exchange_rate (PStr ''0xc_dai'') 7 w3_example markets_example
     = Inr (2 / 100)"
    by (rule rate_example)
  from r scenario_result [OF r, of weth_example] show ?thesis
    by (simp add: liquidation_token_example_def)
qed

text \<open>
  The scenario's record does not have the debt token \<^verbatim>\<open>0xusdc\<close> and the collateral
  token \<^verbatim>\<open>0xdai\<close>: the code fills the two fields the other way round.
\<close>

theorem scenario_counterexample:
  "get_compound_liquidations weth_example [liq_token_example, seize_token_example]
     markets_example w3_example = Inr [liquidation_token_example]
   \<and> debt_token_address liquidation_token_example \<noteq> ''0xusdc''
   \<and> collateral_token_address liquidation_token_example \<noteq> ''0xdai''"
  using result_token_example [of weth_example]
  by (simp add: liquidation_token_example_def)

text \<open>
  Claim C7, as the code has it. The first trace whose reconstruction fails (a missing
  input key, a registry miss, a failed chain query) aborts the whole pass:
  \<^verbatim>\<open>get_compound_liquidations\<close> raises that trace's error, the records of the traces
  before it are lost and the traces after it are not visited. There is no mode that
  collects errors; a pass that ends returns the list of records only.
\<close>

theorem first_failure_aborts:
  assumes "get_compound_liquidations_loop W (pre @ t # post) m w pre [] = Inr ls"
      and "classification t = liquidate" and "protocol t = Some compound_v2"
      and "get_compound_liquidations_body W (pre @ t # post) m w t ls = Inl e"
    shows "get_compound_liquidations W (pre @ t # post) m w = Inl e"
  using assms by (simp add: get_compound_liquidations_def loop_append)

lemma body_malformed_example:
  "get_compound_liquidations_body W traces m w malformed_example ls = Inl KeyError"
  by (simp add: get_compound_liquidations_body_def Let_def malformed_example_def dict_get_def)

text \<open>A malformed trace between two liquidations that reconstruct.\<close>

theorem first_failure_aborts_witness:
  "get_compound_liquidations_loop weth_example
     ([liq_native_example, seize_native_example] @ malformed_example
        # [liq_token_example, seize_token_example])
     markets_example w3_example [liq_native_example, seize_native_example] []
     = Inr [liquidation_native_example]
   \<and> get_compound_liquidations weth_example
       ([liq_native_example, seize_native_example] @ malformed_example
          # [liq_token_example, seize_token_example])
       markets_example w3_example = Inl KeyError"
proof -
  have a: "get_compound_liquidations_loop weth_example
     ([liq_native_example, seize_native_example] @ malformed_example
        # [liq_token_example, seize_token_example])
     markets_example w3_example [liq_native_example, seize_native_example] []
     = Inr [liquidation_native_example]"
  proof -
    have "classification liq_native_example = liquidate"
      "protocol liq_native_example = Some compound_v2"
      "classification seize_native_example = seize"
      by (simp_all add: liq_native_example_def seize_native_example_def)
    with body_native_example [of "[malformed_example, liq_token_example, seize_token_example]" "[]"]
    show ?thesis by simp
  qed
  have b: "classification malformed_example = liquidate"
    and c: "protocol malformed_example = Some compound_v2"
    by (simp_all add: malformed_example_def)
  have d: "get_compound_liquidations_body weth_example
     ([liq_native_example, seize_native_example] @ malformed_example
        # [liq_token_example, seize_token_example])
     markets_example w3_example malformed_example [liquidation_native_example] = Inl KeyError"
    by (rule body_malformed_example)
  from a first_failure_aborts [OF a b c d] show ?thesis by simp
qed

text \<open>
  One malformed trace in front of the scenario's liquidation: the pass raises
  \<^verbatim>\<open>KeyError\<close> and the liquidation, which reconstructs on its own, is not reported.
\<close>

theorem single_failure_counterexample:
  "get_compound_liquidations weth_example
     [malformed_example, liq_token_example, seize_token_example] markets_example w3_example
     = Inl KeyError
   \<and> get_compound_liquidations weth_example
       [liq_token_example, seize_token_example] markets_example w3_example
     = Inr [liquidation_token_example]"
proof -
  have "classification malformed_example = liquidate"
    "protocol malformed_example = Some compound_v2"
    by (simp_all add: malformed_example_def)
  then have "get_compound_liquidations weth_example
     [malformed_example, liq_token_example, seize_token_example] markets_example w3_example
     = Inl KeyError"
    by (simp add: get_compound_liquidations_def body_malformed_example)
  with result_token_example [of weth_example] show ?thesis by simp
qed

lemma lower_case_keys_miss:
  assumes "\<forall>k \<in> dom m. lower k = k" and "lower a \<noteq> a"
    shows "m a = None"
  using assms by (cases "m a") auto

lemma dict_get_opt_Inl: "dict_get_opt m k = Inl e \<Longrightarrow> e = KeyError"
  by (cases k) (auto simp: dict_get_def split: option.splits)

text \<open>
  Claim C10, as the code has it. The registry has lower-cased keys only. A trace whose
  input \<^verbatim>\<open>cTokenCollateral\<close> has an upper-case character (either variant), or a
  \<^verbatim>\<open>CToken\<close> trace whose \<open>to_address\<close> has one, never yields a record, and once
  the rate is resolved (so the market is in the registry under its lower-cased
  address) and the borrower is read, the lookup raises \<^verbatim>\<open>KeyError\<close>. The
  \<open>to_address\<close> of a \<^verbatim>\<open>CEther\<close> trace is not looked up.
\<close>

theorem upper_case_address_key_error:
  assumes "\<forall>k \<in> dom m. lower k = k"
      and "inputs_get (inputs t) ''cTokenCollateral'' = Inr (PStr c)"
      and "abi_name t = Some ''CEther'' \<and> lower c \<noteq> c
           \<or> abi_name t = Some ''CToken''
             \<and> (lower c \<noteq> c \<or> (\<exists>a. to_address t = Some a \<and> lower a \<noteq> a))"
    shows "(\<forall>ls'. get_compound_liquidations_body W traces m w t ls \<noteq> Inr ls')
           \<and> (\<forall>rate b.
                 get_underlying_ctoken_exchange_rate (PStr c) (block_number t) w m = Inr rate
                 \<and> inputs_get (inputs t) ''borrower'' = Inr b
                 \<longrightarrow> get_compound_liquidations_body W traces m w t ls = Inl KeyError)"
proof -
  have c_miss: "dict_get_val m (PStr c) = Inl KeyError" if "lower c \<noteq> c"
    using lower_case_keys_miss [OF assms(1) that] by (simp add: dict_get_def)
  have a_miss: "dict_get_opt m (to_address t) = Inl KeyError"
    if "to_address t = Some a" "lower a \<noteq> a" for a
    using lower_case_keys_miss [OF assms(1) that(2)] that(1) by (simp add: dict_get_def)
  from assms(3) consider
    (native) "abi_name t = Some ''CEther''" "lower c \<noteq> c"
    | (token_c) "abi_name t = Some ''CToken''" "lower c \<noteq> c"
    | (token_to) a where "abi_name t = Some ''CToken''" "to_address t = Some a" "lower a \<noteq> a"
    by blast
  then show ?thesis
  proof cases
    case native
    with assms(2) c_miss show ?thesis
      by (auto simp: get_compound_liquidations_body_def Let_def bindE_def split: sum.splits)
  next
    case token_c
    with assms(2) c_miss show ?thesis
      by (auto simp: get_compound_liquidations_body_def Let_def bindE_def
          split: sum.splits dest: dict_get_opt_Inl)
  next
    case token_to
    with assms(2) a_miss [of a] show ?thesis
      by (auto simp: get_compound_liquidations_body_def Let_def bindE_def split: sum.splits)
  qed
qed

text \<open>The scenario's trace with the collateral market written \<^verbatim>\<open>0xC_DAI\<close>.\<close>

theorem upper_case_address_key_error_witness:
  "(\<exists>ls'. get_compound_liquidations_body weth_example [liq_token_example, seize_token_example]
            markets_example w3_example liq_token_example [] = Inr ls')
   \<and> inputs_get (inputs liq_upper_example) ''cTokenCollateral'' = Inr (PStr ''0xC_DAI'')
   \<and> lower ''0xC_DAI'' \<noteq> ''0xC_DAI''
   \<and> markets_example (lower ''0xC_DAI'') = Some ''0xdai''
   \<and> get_compound_liquidations_body weth_example [liq_upper_example, seize_token_example]
       markets_example w3_example liq_upper_example [] = Inl KeyError"
proof -
  have keys: "\<forall>k \<in> dom markets_example. lower k = k"
    by (simp add: markets_example_def lower_eval)
  have inp: "inputs_get (inputs liq_upper_example) ''cTokenCollateral'' = Inr (PStr ''0xC_DAI'')"
    by (simp add: liq_upper_example_def dict_get_def)
  have up: "lower ''0xC_DAI'' \<noteq> ''0xC_DAI''"
    by (simp add: lower_eval)
  have sel: "abi_name liq_upper_example = Some ''CEther'' \<and> lower ''0xC_DAI'' \<noteq> ''0xC_DAI''
           \<or> abi_name liq_upper_example = Some ''CToken''
             \<and> (lower ''0xC_DAI'' \<noteq> ''0xC_DAI''
                \<or> (\<exists>a. to_address liq_upper_example = Some a \<and> lower a \<noteq> a))"
    using up by (simp add: liq_upper_example_def)
  have rate: "get_underlying_ctoken_exchange_rate (PStr ''0xC_DAI'')
                (block_number liq_upper_example) w3_example markets_example = Inr (2 / 100)"
    by (simp add: get_underlying_ctoken_exchange_rate_def w3_example_def markets_example_def
      checksum_example_def get_erc20_token_decimals_def lower_eval power_int_def dict_get_def)
  have b: "inputs_get (inputs liq_upper_example) ''borrower'' = Inr (PStr ''0xB'')"
    by (simp add: liq_upper_example_def dict_get_def)
  have present: "markets_example (lower ''0xC_DAI'') = Some ''0xdai''"
    by (simp add: markets_example_def lower_eval)
  from upper_case_address_key_error [OF keys inp sel, of weth_example
      "[liq_upper_example, seize_token_example]" w3_example "[]"] rate b
  have "get_compound_liquidations_body weth_example [liq_upper_example, seize_token_example]
       markets_example w3_example liq_upper_example [] = Inl KeyError"
    by blast
  with inp up present body_token_example [of weth_example "[]"] show ?thesis by simp
qed

text \<open>
  A \<^verbatim>\<open>CEther\<close> trace whose \<open>to_address\<close> is the checksum-cased address of the
  native-asset market reconstructs.
\<close>

theorem native_upper_case_counterexample:
  "to_address liq_native_example = Some V2_C_ETHER
   \<and> lower V2_C_ETHER \<noteq> V2_C_ETHER
   \<and> get_compound_liquidations weth_example [liq_native_example, seize_native_example]
       markets_example w3_example = Inr [liquidation_native_example]"
  using result_native_example
  by (simp add: liq_native_example_def lower_neq_V2_C_ETHER)

subsection \<open>The strategy inspector\<close>

lemma find_collateral_source_loop_filter:
  "find_collateral_source_loop traces tx lc source =
     (let ds = filter (\<lambda>t. to_address t = lc
                           \<and> function_name t = Some ''liquidateBorrow''
                           \<and> (from_address t = Some (lower (t_to_address tx))
                              \<or> from_address t = Some (lower (t_from_address tx)))) traces
      in if ds = [] then source
         else if from_address (last ds) = Some (lower (t_to_address tx)) then searcher_contract
         else searcher_eoa)"
proof (induction traces arbitrary: source)
  case Nil
  then show ?case by simp
next
  case (Cons a traces)
  show ?case
    by (simp add: Cons.IH Let_def) (auto simp: eq_commute)
qed

text \<open>
  Claim C9, as the code has it. Among the traces that call \<^verbatim>\<open>liquidateBorrow\<close> on the
  liquidation contract, those whose \<open>from_address\<close> is the lower-cased
  \<open>to_address\<close> or the lower-cased \<open>from_address\<close> of the transaction decide;
  the last of them wins: \<open>searcher_contract\<close> when its \<open>from_address\<close> is the
  transaction's lower-cased \<open>to_address\<close>, \<open>searcher_eoa\<close> otherwise; and
  \<open>other\<close> when there is none.
\<close>

theorem find_collateral_source_last_match:
  "find_collateral_source traces tx lc =
     (let ds = filter (\<lambda>t. to_address t = lc
                           \<and> function_name t = Some ''liquidateBorrow''
                           \<and> (from_address t = Some (lower (t_to_address tx))
                              \<or> from_address t = Some (lower (t_from_address tx)))) traces
      in if ds = [] then other
         else if from_address (last ds) = Some (lower (t_to_address tx)) then searcher_contract
         else searcher_eoa)"
  unfolding find_collateral_source_def by (rule find_collateral_source_loop_filter)

text \<open>
  Two calls of \<^verbatim>\<open>liquidateBorrow\<close> on the contract: the first from the transaction's
  \<open>to_address\<close>, the second from its \<open>from_address\<close>. The result is
  \<open>searcher_eoa\<close>.
\<close>

theorem last_match_wins_counterexample:
  "to_address call_by_contract_example = Some ''0xc_usdc''
   \<and> function_name call_by_contract_example = Some ''liquidateBorrow''
   \<and> from_address call_by_contract_example = Some (t_to_address tx_example)
   \<and> find_collateral_source [call_by_contract_example, call_by_eoa_example] tx_example
       (Some ''0xc_usdc'') = searcher_eoa"
  by (simp add: find_collateral_source_def call_by_contract_example_def
      call_by_eoa_example_def tx_example_def lower_eval)

text \<open>
  With exactly one call of \<^verbatim>\<open>liquidateBorrow\<close> on the contract, that call decides, the
  contract test first.
\<close>

lemma find_collateral_source_single_call:
  assumes "filter (\<lambda>t. to_address t = lc \<and> function_name t = Some ''liquidateBorrow'') traces
             = [t]"
    shows "find_collateral_source traces tx lc =
             (if from_address t = Some (lower (t_to_address tx)) then searcher_contract
              else if from_address t = Some (lower (t_from_address tx)) then searcher_eoa
              else other)"
proof -
  let ?call = "\<lambda>t. to_address t = lc \<and> function_name t = Some ''liquidateBorrow''"
  let ?from = "\<lambda>t. from_address t = Some (lower (t_to_address tx))
                    \<or> from_address t = Some (lower (t_from_address tx))"
  have "filter (\<lambda>t. ?call t \<and> ?from t) traces = filter ?from (filter ?call traces)"
    by (simp add: conj_commute)
  with assms have "filter (\<lambda>t. ?call t \<and> ?from t) traces = (if ?from t then [t] else [])"
    by simp
  then show ?thesis
    unfolding find_collateral_source_def find_collateral_source_loop_filter
    by (auto simp: Let_def)
qed

lemma inspect_loop_default:
  assumes "\<forall>t \<in> set rest. function_name t \<noteq> Some ''liquidateBorrow''"
    shows "inspect_compound_v2_ceth_loop dflt w tx traces rest = Inr dflt"
  using assms by (induction rest) simp_all

text \<open>
  Claim C8, as the code has it. When no trace of the transaction has the function name
  \<^verbatim>\<open>liquidateBorrow\<close>, \<^verbatim>\<open>inspect_compound_v2_ceth\<close> returns the default-constructed
  record \<^verbatim>\<open>Liquidation()\<close>, not an absent result.
\<close>

theorem no_liquidate_borrow_default:
  assumes "\<forall>t \<in> set traces. function_name t \<noteq> Some ''liquidateBorrow''"
    shows "inspect_compound_v2_ceth dflt w tx traces = Inr dflt"
  using assms by (simp add: inspect_compound_v2_ceth_def inspect_loop_default)

text \<open>A transaction with seize calls only.\<close>

theorem no_liquidate_borrow_default_witness:
  "inspect_compound_v2_ceth placeholder_example w3_example tx_example
     [seize_token_example, seize_token_example] = Inr placeholder_example"
proof -
  have "\<forall>t \<in> set [seize_token_example, seize_token_example].
          function_name t \<noteq> Some ''liquidateBorrow''"
    by (simp add: seize_token_example_def)
  then show ?thesis by (rule no_liquidate_borrow_default)
qed

text \<open>On a single seize call the result is the placeholder record.\<close>

theorem placeholder_counterexample:
  "function_name seize_token_example \<noteq> Some ''liquidateBorrow''
   \<and> inspect_compound_v2_ceth placeholder_example w3_example tx_example [seize_token_example]
       = Inr placeholder_example"
  by (simp add: inspect_compound_v2_ceth_def seize_token_example_def)

end
